theory Spec2Isabelle
  imports Main
begin

section \<open>Python strings and the library functions the views call\<close>

text \<open>
  A Python \<open>str\<close> is a sequence of code points. It is modelled as \<open>string\<close>, the
  character with number \<open>n\<close> standing for the code point U+00\<open>n\<close>: the model covers
  the strings over U+0000 .. U+00FF, and \<open>length\<close> is Python's \<open>len\<close> on them.
\<close>

definition isspace :: "char \<Rightarrow> bool" where
  \<comment> \<open>\<open>str.isspace\<close> on one code point; these are the characters \<open>str.strip()\<close> removes.\<close>
  "isspace c =
     (let n = (of_char c :: nat)
      in (9 \<le> n \<and> n \<le> 13) \<or> (28 \<le> n \<and> n \<le> 32) \<or> n = 133 \<or> n = 160)"

definition strip :: "string \<Rightarrow> string" where
  "strip s = rev (dropWhile isspace (rev (dropWhile isspace s)))"

definition isdecimal :: "char \<Rightarrow> bool" where
  "isdecimal c = (let n = (of_char c :: nat) in 48 \<le> n \<and> n \<le> 57)"

definition isdigit_char :: "char \<Rightarrow> bool" where
  \<comment> \<open>Besides 0-9, the superscripts U+00B2, U+00B3 and U+00B9 are digits for \<open>str.isdigit\<close>.\<close>
  "isdigit_char c =
     (let n = (of_char c :: nat) in (48 \<le> n \<and> n \<le> 57) \<or> n = 178 \<or> n = 179 \<or> n = 185)"

definition isdigit :: "string \<Rightarrow> bool" where
  \<comment> \<open>\<open>str.isdigit()\<close>: every character is a digit and there is at least one.\<close>
  "isdigit s = (s \<noteq> [] \<and> list_all isdigit_char s)"

definition int_space :: "char \<Rightarrow> bool" where
  \<comment> \<open>The whitespace \<open>int()\<close> skips around a literal (U+001C .. U+001F are not skipped).\<close>
  "int_space c =
     (let n = (of_char c :: nat) in (9 \<le> n \<and> n \<le> 13) \<or> n = 32 \<or> n = 133 \<or> n = 160)"

definition digit_val :: "char \<Rightarrow> nat" where
  "digit_val c = of_char c - 48"

text \<open>
  The digits of a base-10 literal: at least one digit, single underscores allowed
  between digits only.
\<close>

fun digits :: "nat \<Rightarrow> string \<Rightarrow> nat option"
  and digits_rest :: "nat \<Rightarrow> string \<Rightarrow> nat option" where
  "digits acc [] = None"
| "digits acc (c # cs) =
     (if isdecimal c then digits_rest (acc * 10 + digit_val c) cs else None)"
| "digits_rest acc [] = Some acc"
| "digits_rest acc (c # cs) =
     (if c = CHR ''_'' then digits acc cs
      else if isdecimal c then digits_rest (acc * 10 + digit_val c) cs
      else None)"

definition max_str_digits :: nat where
  \<comment> \<open>\<open>sys.int_max_str_digits\<close>, at its default.\<close>
  "max_str_digits = 4300"

definition literal :: "string \<Rightarrow> nat option" where
  \<comment> \<open>The unsigned literal. \<open>int()\<close> of CPython 3.11 and later (and of the patched
      3.7 to 3.10) refuses a literal of more than \<open>max_str_digits\<close> digits, leading
      zeros counted, underscores not; it raises \<open>ValueError\<close> as for a malformed literal.\<close>
  "literal ds =
     (if length (filter isdecimal ds) > max_str_digits then None else digits 0 ds)"

definition py_int :: "string \<Rightarrow> int option" where
  \<comment> \<open>\<open>int(s)\<close>; \<open>None\<close> is the \<open>ValueError\<close>.\<close>
  "py_int s =
     (case rev (dropWhile int_space (rev (dropWhile int_space s))) of
        [] \<Rightarrow> None
      | c # cs \<Rightarrow>
          if c = CHR ''-'' then map_option (\<lambda>n. - int n) (literal cs)
          else if c = CHR ''+'' then map_option int (literal cs)
          else map_option int (literal (c # cs)))"

definition falsy :: "string option \<Rightarrow> bool" where
  \<comment> \<open>\<open>not v\<close> for the result of \<open>QueryDict.get\<close>: \<open>None\<close> or the empty string.\<close>
  "falsy v = (case v of None \<Rightarrow> True | Some s \<Rightarrow> s = [])"


section \<open>Data model\<close>

text \<open>
  Modelled from the spec: \<open>models.py\<close> (the classes \<open>Novel\<close>, \<open>Chapter\<close>, \<open>Category\<close>
  and \<open>Comment\<close>) is not part of the sources. The records below carry the fields the
  views read and write and the spec's data model lists; a foreign key is the id of the
  row it refers to. Field names are prefixed, since records share one name space.
\<close>

record Category =
  category_id :: nat
  category_name :: string

record Novel =
  novel_id :: nat
  novel_title :: string
  novel_author :: string
  novel_category :: nat
  novel_intro :: string
  novel_uploader :: nat
  novel_is_approved :: bool

record Chapter =
  chapter_id :: nat
  chapter_novel :: nat
  chapter_title :: string
  sort_num :: int
  chapter_content :: string
  chapter_uploader :: nat
  chapter_is_approved :: bool

record Comment =
  comment_id :: nat
  comment_chapter :: nat
  comment_user :: nat
  comment_content :: string
  comment_is_approved :: bool

text \<open>The database: one list of rows per table, a query set being a list of rows.\<close>

record database =
  novels :: "Novel list"
  chapters :: "Chapter list"
  categories :: "Category list"
  comments :: "Comment list"

definition wf_database :: "database \<Rightarrow> bool" where
  \<comment> \<open>The primary-key constraint of the store: no two rows of a table share an id.\<close>
  "wf_database db =
     (distinct (map novel_id (novels db)) \<and> distinct (map chapter_id (chapters db)))"

definition fresh_id :: "nat list \<Rightarrow> nat" where
  \<comment> \<open>The id the store gives a created row: one not in use.\<close>
  "fresh_id ids = Suc (fold max ids 0)"


section \<open>Requests and responses\<close>

datatype viewer = AnonymousUser | User nat bool

fun is_authenticated :: "viewer \<Rightarrow> bool" where
  "is_authenticated AnonymousUser = False"
| "is_authenticated (User uid su) = True"

fun is_superuser :: "viewer \<Rightarrow> bool" where
  "is_superuser AnonymousUser = False"
| "is_superuser (User uid su) = su"

fun is_user :: "nat \<Rightarrow> viewer \<Rightarrow> bool" where
  \<comment> \<open>\<open>row.uploader == request.user\<close>: equality of user objects is equality of ids, and
      the anonymous user equals no stored user.\<close>
  "is_user uid AnonymousUser = False"
| "is_user uid (User uid' su) = (uid = uid')"

record request =
  user :: viewer
  "method" :: string
  GET :: "string \<rightharpoonup> string"
  POST :: "string \<rightharpoonup> string"

datatype py_exception = ValueError | NameError

datatype url = Url_login | Url_novel_list | Url_chapter_list nat | Url_chapter_detail nat

datatype message_text =
    Comment_empty | Comment_too_long | Comment_posted
  | Novel_edited | Chapter_edited | Novel_approved | Chapter_approved

datatype message = Error_message message_text | Success_message message_text

datatype form_error = Empty_field | Invalid_format | Duplicate_ordering int


text \<open>
  What a view hands to its template: one constructor per template, with the entries
  of the \<open>context\<close> dictionary in the order of the comments.
\<close>

datatype template_context =
    Novel_list_page "Novel list" "Category list" string string
    \<comment> \<open>novels, categories, selected_category, keyword\<close>
  | Edit_novel_page Novel "Category list" "form_error option"
    \<comment> \<open>novel, categories, error\<close>
  | Chapter_list_page Novel "Chapter list"
    \<comment> \<open>novel, chapters\<close>
  | Add_chapter_page Novel "form_error option" "int list" int
    \<comment> \<open>novel, error, existing_sort_nums, next_sort_num\<close>
  | Edit_chapter_page Chapter "form_error option"
    \<comment> \<open>chapter, error\<close>
  | Chapter_detail_page Chapter nat "Comment list" "Chapter option" "Chapter option" "string list"
    \<comment> \<open>chapter, novel (its id), comments, next_chapter, prev_chapter, chapter_paragraphs\<close>

datatype response =
    Render template_context
  | Redirect url "message option"
    \<comment> \<open>the target, and the message left for the next page, if any\<close>
  | HttpResponseForbidden
  | Not_found
    \<comment> \<open>the 404 of \<open>get_object_or_404\<close>\<close>
  | Server_error py_exception
    \<comment> \<open>an exception no view catches: the framework answers 500\<close>

definition get_or :: "(string \<rightharpoonup> string) \<Rightarrow> string \<Rightarrow> string \<Rightarrow> string" where
  \<comment> \<open>\<open>QueryDict.get(key, default)\<close>\<close>
  "get_or q key dflt = (case q key of None \<Rightarrow> dflt | Some v \<Rightarrow> v)"

definition text_of :: "string option \<Rightarrow> string" where
  \<comment> \<open>The string held by a form field that passed the emptiness check.\<close>
  "text_of v = (case v of None \<Rightarrow> [] | Some s \<Rightarrow> s)"

definition login_required ::
    "(database \<Rightarrow> request \<Rightarrow> nat \<Rightarrow> database \<times> response) \<Rightarrow>
     database \<Rightarrow> request \<Rightarrow> nat \<Rightarrow> database \<times> response" where
  \<comment> \<open>The decorator: an anonymous request is sent to the login page, the view not run.\<close>
  "login_required view db request k =
     (if is_authenticated (user request) then view db request k
      else (db, Redirect Url_login None))"


section \<open>The object mapper\<close>

definition get_novel :: "database \<Rightarrow> nat \<Rightarrow> Novel option" where
  "get_novel db k = find (\<lambda>n. novel_id n = k) (novels db)"

definition get_chapter :: "database \<Rightarrow> nat \<Rightarrow> Chapter option" where
  "get_chapter db k = find (\<lambda>c. chapter_id c = k) (chapters db)"

definition get_category :: "database \<Rightarrow> int \<Rightarrow> Category option" where
  "get_category db k = find (\<lambda>c. int (category_id c) = k) (categories db)"

definition save_novel :: "Novel \<Rightarrow> database \<Rightarrow> database" where
  \<comment> \<open>\<open>novel.save()\<close> on a fetched row: every field is written to the row of that id.\<close>
  "save_novel n db =
     db\<lparr>novels := map (\<lambda>r. if novel_id r = novel_id n then n else r) (novels db)\<rparr>"

definition save_chapter :: "Chapter \<Rightarrow> database \<Rightarrow> database" where
  "save_chapter c db =
     db\<lparr>chapters := map (\<lambda>r. if chapter_id r = chapter_id c then c else r) (chapters db)\<rparr>"

definition first :: "'a list \<Rightarrow> 'a option" where
  \<comment> \<open>\<open>QuerySet.first()\<close>: \<open>None\<close> on an empty query set.\<close>
  "first xs = (case xs of [] \<Rightarrow> None | x # _ \<Rightarrow> Some x)"

definition lower :: "char \<Rightarrow> char" where
  \<comment> \<open>Case folding of the \<open>icontains\<close> lookup, on the letters A-Z.\<close>
  "lower c = (let n = (of_char c :: nat) in if 65 \<le> n \<and> n \<le> 90 then char_of (n + 32) else c)"

fun startswith :: "'a list \<Rightarrow> 'a list \<Rightarrow> bool" where
  "startswith [] ys = True"
| "startswith (x # xs) [] = False"
| "startswith (x # xs) (y # ys) = (x = y \<and> startswith xs ys)"

fun contains :: "'a list \<Rightarrow> 'a list \<Rightarrow> bool" where
  \<comment> \<open>\<open>contains kw s\<close>: \<open>kw\<close> occurs in \<open>s\<close> as a contiguous run.\<close>
  "contains kw [] = (kw = [])"
| "contains kw (y # ys) = (startswith kw (y # ys) \<or> contains kw ys)"

definition icontains :: "string \<Rightarrow> string \<Rightarrow> bool" where
  \<comment> \<open>The lookup \<open>field__icontains=kw\<close> on a field value \<open>s\<close>.\<close>
  "icontains kw s = contains (map lower kw) (map lower s)"


section \<open>The views\<close>

subsection \<open>\<open>novel_list\<close>\<close>

definition novel_list :: "database \<Rightarrow> request \<Rightarrow> response" where
  "novel_list db request =
     (let category_id = get_or (GET request) ''category'' [];
          keyword = get_or (GET request) ''keyword'' [];
          approved = filter novel_is_approved (novels db)
      in case (if category_id \<noteq> [] \<and> isdigit category_id
               then (case py_int category_id of
                       None \<Rightarrow> Inl ValueError
                     | Some k \<Rightarrow> Inr (filter (\<lambda>n. int (novel_category n) = k) approved))
               else Inr approved) of
           Inl e \<Rightarrow> Server_error e
         | Inr in_category \<Rightarrow>
             Render (Novel_list_page
               (if keyword \<noteq> []
                then filter (\<lambda>n. icontains keyword (novel_title n) \<or>
                                  icontains keyword (novel_author n)) in_category
                else in_category)
               (categories db) category_id keyword))"

subsection \<open>\<open>edit_novel\<close>\<close>

text \<open>
  The category of the form is a string; the lookup by id converts it with \<open>int\<close>, whose
  \<open>ValueError\<close> nothing catches.
\<close>

definition edit_novel :: "database \<Rightarrow> request \<Rightarrow> nat \<Rightarrow> database \<times> response" where
  "edit_novel = login_required (\<lambda>db request nid.
     case get_novel db nid of
       None \<Rightarrow> (db, Not_found)
     | Some novel \<Rightarrow>
         if \<not> is_user (novel_uploader novel) (user request) \<and> \<not> is_superuser (user request)
         then (db, HttpResponseForbidden)
         else if method request = ''POST'' then
           (let title = POST request ''title'';
                author = POST request ''author'';
                cat = POST request ''category'';
                intro = get_or (POST request) ''intro'' []
            in if falsy title \<or> falsy author \<or> falsy cat
               then (db, Render (Edit_novel_page novel (categories db) (Some Empty_field)))
               else (case py_int (text_of cat) of
                       None \<Rightarrow> (db, Server_error ValueError)
                     | Some k \<Rightarrow>
                        (case get_category db k of
                           None \<Rightarrow> (db, Not_found)
                         | Some category \<Rightarrow>
                             (save_novel
                                (novel\<lparr>novel_title := text_of title,
                                       novel_author := text_of author,
                                       novel_category := category_id category,
                                       novel_intro := intro\<rparr>) db,
                              Redirect (Url_chapter_list (novel_id novel))
                                (Some (Success_message Novel_edited))))))
         else (db, Render (Edit_novel_page novel (categories db) None)))"

subsection \<open>\<open>chapter_list\<close>\<close>

definition chapter_list :: "database \<Rightarrow> request \<Rightarrow> nat \<Rightarrow> database \<times> response" where
  "chapter_list = login_required (\<lambda>db request nid.
     case get_novel db nid of
       None \<Rightarrow> (db, Not_found)
     | Some novel \<Rightarrow>
         (let novel_chapters = filter (\<lambda>c. chapter_novel c = novel_id novel) (chapters db);
              shown =
                (if \<not> is_user (novel_uploader novel) (user request) \<and>
                    \<not> is_superuser (user request)
                 then filter chapter_is_approved novel_chapters
                 else novel_chapters)
          in (db, Render (Chapter_list_page novel shown))))"

subsection \<open>\<open>add_chapter\<close>\<close>

definition next_sort_num :: "int list \<Rightarrow> int" where
  \<comment> \<open>\<open>max(existing_sort_nums) + 1 if existing_sort_nums else 1\<close>\<close>
  "next_sort_num existing = (case existing of [] \<Rightarrow> 1 | x # xs \<Rightarrow> fold max xs x + 1)"

text \<open>
  Creating a row with the anonymous user as uploader raises \<open>ValueError\<close> in the object
  mapper; behind \<open>login_required\<close> that branch is never taken.
\<close>

definition add_chapter :: "database \<Rightarrow> request \<Rightarrow> nat \<Rightarrow> database \<times> response" where
  "add_chapter = login_required (\<lambda>db request nid.
     case get_novel db nid of
       None \<Rightarrow> (db, Not_found)
     | Some novel \<Rightarrow>
         if \<not> is_user (novel_uploader novel) (user request) then (db, HttpResponseForbidden)
         else
           (let existing_sort_nums =
                  map sort_num (filter (\<lambda>c. chapter_novel c = novel_id novel) (chapters db));
                nxt = next_sort_num existing_sort_nums
            in if method request = ''POST'' then
                 (let title = POST request ''title'';
                      sort_str = POST request ''sort_num'';
                      content = POST request ''content''
                  in if falsy title \<or> falsy sort_str \<or> falsy content
                     then (db, Render (Add_chapter_page novel (Some Empty_field)
                                         existing_sort_nums nxt))
                     else (case py_int (text_of sort_str) of
                             None \<Rightarrow> (db, Render (Add_chapter_page novel (Some Invalid_format)
                                                    existing_sort_nums nxt))
                           | Some k \<Rightarrow>
                               if filter (\<lambda>c. chapter_novel c = novel_id novel \<and> sort_num c = k)
                                    (chapters db) \<noteq> []
                               then (db, Render (Add_chapter_page novel
                                                   (Some (Duplicate_ordering k))
                                                   existing_sort_nums nxt))
                               else (case user request of
                                       AnonymousUser \<Rightarrow> (db, Server_error ValueError)
                                     | User uid su \<Rightarrow>
                                         (db\<lparr>chapters := chapters db @
                                               [\<lparr>chapter_id = fresh_id (map chapter_id (chapters db)),
                                                 chapter_novel = novel_id novel,
                                                 chapter_title = text_of title,
                                                 sort_num = k,
                                                 chapter_content = text_of content,
                                                 chapter_uploader = uid,
                                                 chapter_is_approved = False\<rparr>]\<rparr>,
                                          Redirect (Url_chapter_list (novel_id novel)) None))))
               else (db, Render (Add_chapter_page novel None existing_sort_nums nxt))))"

subsection \<open>\<open>edit_chapter\<close>\<close>

definition edit_chapter :: "database \<Rightarrow> request \<Rightarrow> nat \<Rightarrow> database \<times> response" where
  "edit_chapter = login_required (\<lambda>db request cid.
     case get_chapter db cid of
       None \<Rightarrow> (db, Not_found)
     | Some chapter \<Rightarrow>
         if \<not> is_user (chapter_uploader chapter) (user request) \<and>
            \<not> is_superuser (user request)
         then (db, HttpResponseForbidden)
         else if method request = ''POST'' then
           (let title = POST request ''title'';
                sort_str = POST request ''sort_num'';
                content = POST request ''content''
            in if falsy title \<or> falsy sort_str \<or> falsy content
               then (db, Render (Edit_chapter_page chapter (Some Empty_field)))
               else (case py_int (text_of sort_str) of
                       None \<Rightarrow> (db, Render (Edit_chapter_page chapter (Some Invalid_format)))
                     | Some k \<Rightarrow>
                         if filter (\<lambda>c. chapter_id c \<noteq> chapter_id chapter)
                              (filter (\<lambda>c. chapter_novel c = chapter_novel chapter \<and>
                                            sort_num c = k) (chapters db)) \<noteq> []
                         then (db, Render (Edit_chapter_page chapter
                                             (Some (Duplicate_ordering k))))
                         else (save_chapter
                                 (chapter\<lparr>chapter_title := text_of title,
                                          sort_num := k,
                                          chapter_content := text_of content,
                                          chapter_is_approved := False\<rparr>) db,
                               Redirect (Url_chapter_detail (chapter_id chapter))
                                 (Some (Success_message Chapter_edited)))))
         else (db, Render (Edit_chapter_page chapter None)))"


subsection \<open>\<open>chapter_detail\<close>\<close>

fun split :: "char \<Rightarrow> string \<Rightarrow> string list" where
  \<comment> \<open>\<open>str.split(sep)\<close> for a separator of one character\<close>
  "split sep [] = [[]]"
| "split sep (c # cs) =
     (if c = sep then [] # split sep cs
      else (case split sep cs of [] \<Rightarrow> [[c]] | w # ws \<Rightarrow> (c # w) # ws))"

text \<open>
  The module imports \<open>render\<close>, \<open>get_object_or_404\<close>, \<open>redirect\<close>,
  \<open>HttpResponseForbidden\<close>, \<open>HttpResponseBadRequest\<close> and \<open>HttpResponse\<close>, and never
  the name \<open>Http404\<close>: evaluating \<open>raise Http404(...)\<close> raises \<open>NameError\<close>, which no
  handler catches. The view is not decorated with \<open>login_required\<close>.

  \<open>order_by\<close> is a stable sort of the rows in table order, on the key for ascending
  and on the negated key for descending order.
\<close>

definition chapter_detail :: "database \<Rightarrow> request \<Rightarrow> nat \<Rightarrow> response" where
  "chapter_detail db request cid =
     (case get_chapter db cid of
        None \<Rightarrow> Not_found
      | Some chapter \<Rightarrow>
          (let u = user request;
               may_see_pending =
                 (if is_authenticated u
                  then (if is_superuser u \<or> is_user (chapter_uploader chapter) u
                        then True else False)
                  else False);
               can_view = (if chapter_is_approved chapter then True else may_see_pending)
           in if \<not> can_view then Server_error NameError
              else
                (let shown_comments =
                       filter comment_is_approved
                         (filter (\<lambda>m. comment_chapter m = chapter_id chapter) (comments db));
                     chapter_paragraphs =
                       (if chapter_content chapter \<noteq> []
                        then filter (\<lambda>p. p \<noteq> [])
                               (map strip (split (CHR 0x0A) (chapter_content chapter)))
                        else []);
                     chapter_filter =
                       (\<lambda>c. chapter_novel c = chapter_novel chapter \<and>
                            (if \<not> can_view then chapter_is_approved c else True));
                     prev_chapter =
                       first (sort_key (\<lambda>c. - sort_num c)
                         (filter (\<lambda>c. sort_num c < sort_num chapter \<and> chapter_filter c)
                            (chapters db)));
                     next_chapter =
                       first (sort_key sort_num
                         (filter (\<lambda>c. sort_num c > sort_num chapter \<and> chapter_filter c)
                            (chapters db)))
                 in Render (Chapter_detail_page chapter (chapter_novel chapter)
                              shown_comments next_chapter prev_chapter chapter_paragraphs))))"

subsection \<open>\<open>add_comment\<close>\<close>

text \<open>
  \<open>Comment.objects.create\<close> leaves \<open>is_approved\<close> to the default of the model, which
  is declared outside the sources: it is the parameter \<open>dflt\<close>.
\<close>

definition add_comment :: "bool \<Rightarrow> database \<Rightarrow> request \<Rightarrow> nat \<Rightarrow> database \<times> response" where
  "add_comment dflt = login_required (\<lambda>db request cid.
     case get_chapter db cid of
       None \<Rightarrow> (db, Not_found)
     | Some chapter \<Rightarrow>
         if method request = ''POST'' then
           (let content = strip (get_or (POST request) ''content'' [])
            in if content = []
               then (db, Redirect (Url_chapter_detail cid) (Some (Error_message Comment_empty)))
               else if length content > 500
               then (db, Redirect (Url_chapter_detail cid)
                           (Some (Error_message Comment_too_long)))
               else (case user request of
                       AnonymousUser \<Rightarrow> (db, Server_error ValueError)
                     | User uid su \<Rightarrow>
                         (db\<lparr>comments := comments db @
                               [\<lparr>comment_id = fresh_id (map comment_id (comments db)),
                                 comment_chapter = chapter_id chapter,
                                 comment_user = uid,
                                 comment_content = content,
                                 comment_is_approved = dflt\<rparr>]\<rparr>,
                          Redirect (Url_chapter_detail cid)
                            (Some (Success_message Comment_posted)))))
         else (db, Redirect (Url_chapter_detail cid) None))"

subsection \<open>\<open>approve_novel\<close> and \<open>approve_chapter\<close>\<close>

definition approve_novel :: "database \<Rightarrow> request \<Rightarrow> nat \<Rightarrow> database \<times> response" where
  "approve_novel = login_required (\<lambda>db request nid.
     if \<not> is_superuser (user request) then (db, HttpResponseForbidden)
     else (case get_novel db nid of
             None \<Rightarrow> (db, Not_found)
           | Some novel \<Rightarrow>
               (save_novel (novel\<lparr>novel_is_approved := True\<rparr>) db,
                Redirect Url_novel_list (Some (Success_message Novel_approved)))))"

definition approve_chapter :: "database \<Rightarrow> request \<Rightarrow> nat \<Rightarrow> database \<times> response" where
  "approve_chapter = login_required (\<lambda>db request cid.
     if \<not> is_superuser (user request) then (db, HttpResponseForbidden)
     else (case get_chapter db cid of
             None \<Rightarrow> (db, Not_found)
           | Some chapter \<Rightarrow>
               (save_chapter (chapter\<lparr>chapter_is_approved := True\<rparr>) db,
                Redirect (Url_chapter_list (chapter_novel chapter))
                  (Some (Success_message Chapter_approved)))))"


section \<open>Observations and a sample store\<close>

fun shown_error :: "response \<Rightarrow> form_error option" where
  \<comment> \<open>The \<open>error\<close> entry of a re-rendered form, if the response is one.\<close>
  "shown_error (Render (Edit_novel_page n cs e)) = e"
| "shown_error (Render (Add_chapter_page n e xs nxt)) = e"
| "shown_error (Render (Edit_chapter_page c e)) = e"
| "shown_error r = None"

definition occurs_in :: "string \<Rightarrow> string \<Rightarrow> bool" where
  \<comment> \<open>The specification's reading of the keyword match: \<open>kw\<close> is a substring of \<open>s\<close>
      once both are case-folded.\<close>
  "occurs_in kw s = (\<exists>before after. map lower s = before @ map lower kw @ after)"

definition dune :: Novel where
  "dune = \<lparr>novel_id = 1, novel_title = ''Dune'', novel_author = ''Herbert'',
           novel_category = 1, novel_intro = ''Sand'', novel_uploader = 1,
           novel_is_approved = True\<rparr>"

definition emma :: Novel where
  "emma = \<lparr>novel_id = 2, novel_title = ''Emma'', novel_author = ''Austen'',
           novel_category = 2, novel_intro = [], novel_uploader = 2,
           novel_is_approved = False\<rparr>"

definition ch_one :: Chapter where
  "ch_one = \<lparr>chapter_id = 1, chapter_novel = 1, chapter_title = ''One'', sort_num = 1,
             chapter_content = ''a'', chapter_uploader = 1, chapter_is_approved = True\<rparr>"

definition ch_two :: Chapter where
  "ch_two = \<lparr>chapter_id = 2, chapter_novel = 1, chapter_title = ''Two'', sort_num = 2,
             chapter_content = ''b'', chapter_uploader = 1, chapter_is_approved = False\<rparr>"

definition ch_three :: Chapter where
  "ch_three = \<lparr>chapter_id = 3, chapter_novel = 1, chapter_title = ''Three'', sort_num = 3,
               chapter_content = ''c'', chapter_uploader = 1, chapter_is_approved = True\<rparr>"

definition sample_db :: database where
  "sample_db =
     \<lparr>novels = [dune, emma],
      chapters = [ch_one, ch_two, ch_three],
      categories = [\<lparr>category_id = 1, category_name = ''SF''\<rparr>,
                    \<lparr>category_id = 2, category_name = ''Classic''\<rparr>],
      comments = []\<rparr>"

definition sample_request :: "viewer \<Rightarrow> string \<Rightarrow> (string \<rightharpoonup> string) \<Rightarrow> request" where
  \<comment> \<open>A request of the viewer with the given method, the fields as query and as form.\<close>
  "sample_request u m q = \<lparr>user = u, method = m, GET = q, POST = q\<rparr>"

definition chapter_form :: "string \<Rightarrow> string \<rightharpoonup> string" where
  \<comment> \<open>A filled chapter form with the given text in the sort number field.\<close>
  "chapter_form s = [''title'' \<mapsto> ''New'', ''sort_num'' \<mapsto> s, ''content'' \<mapsto> ''text'']"

definition novel_form :: "string \<rightharpoonup> string" where
  "novel_form = [''title'' \<mapsto> ''Dune II'', ''author'' \<mapsto> ''F. Herbert'',
                 ''category'' \<mapsto> ''2'', ''intro'' \<mapsto> ''More sand'']"

definition comment_form :: "string \<Rightarrow> string \<rightharpoonup> string" where
  "comment_form s = [''content'' \<mapsto> s]"

lemmas sample_defs =
  sample_db_def sample_request_def dune_def emma_def ch_one_def ch_two_def ch_three_def
  chapter_form_def novel_form_def comment_form_def


section \<open>Facts about the object mapper\<close>

lemma find_update_row:
  "find (\<lambda>r. f r = k) xs = Some n \<Longrightarrow> f n' = k \<Longrightarrow>
   find (\<lambda>r. f r = k) (map (\<lambda>r. if f r = k then n' else r) xs) = Some n'"
  by (induction xs) (auto split: if_splits)

lemma update_row_same:
  assumes "find (\<lambda>r. f r = k) xs = Some n" and "distinct (map f xs)"
  shows "map (\<lambda>r. if f r = k then n else r) xs = xs"
proof (rule map_idI)
  fix r assume r: "r \<in> set xs"
  from assms(1) have n: "n \<in> set xs" "f n = k"
    by (auto simp: find_Some_iff in_set_conv_nth)
  from assms(2) have "inj_on f (set xs)" by (simp add: distinct_map)
  with r n show "(if f r = k then n else r) = r" by (auto dest: inj_onD)
qed

lemma find_key: "find (\<lambda>r. f r = k) xs = Some n \<Longrightarrow> f n = k \<and> n \<in> set xs"
  by (auto simp: find_Some_iff in_set_conv_nth)


section \<open>Approval\<close>

text \<open>
  C10. In \<open>approve_novel\<close> and \<open>approve_chapter\<close> the superuser check comes before the
  lookup of the entity: an authenticated caller who is not a superuser gets Forbidden
  for every id and every store, whether the id resolves or not, and the store is left
  as it was. The answer does not depend on the id, so it tells nothing about which ids
  exist.
\<close>

theorem approve_checks_superuser_first:
  assumes "user request = User uid False"
  shows "approve_novel db request k = (db, HttpResponseForbidden) \<and>
         approve_chapter db request k = (db, HttpResponseForbidden)"
  using assms by (simp add: approve_novel_def approve_chapter_def login_required_def)

theorem approve_checks_superuser_first_witness:
  "user (sample_request (User 2 False) ''POST'' Map.empty) = User 2 False \<and>
   get_novel sample_db 77 = None \<and> get_chapter sample_db 77 = None \<and>
   approve_novel sample_db (sample_request (User 2 False) ''POST'' Map.empty) 77
     = (sample_db, HttpResponseForbidden) \<and>
   approve_chapter sample_db (sample_request (User 2 False) ''POST'' Map.empty) 77
     = (sample_db, HttpResponseForbidden) \<and>
   get_novel sample_db 2 = Some emma \<and> get_chapter sample_db 2 = Some ch_two \<and>
   approve_novel sample_db (sample_request (User 2 False) ''POST'' Map.empty) 2
     = (sample_db, HttpResponseForbidden) \<and>
   approve_chapter sample_db (sample_request (User 2 False) ''POST'' Map.empty) 2
     = (sample_db, HttpResponseForbidden)"
  using
    approve_checks_superuser_first
      [of "sample_request (User 2 False) ''POST'' Map.empty" 2 sample_db 77]
    approve_checks_superuser_first
      [of "sample_request (User 2 False) ''POST'' Map.empty" 2 sample_db 2]
  by (simp add: get_novel_def get_chapter_def sample_defs)


lemma save_novel_same:
  "get_novel db k = Some n \<Longrightarrow> wf_database db \<Longrightarrow> save_novel n db = db"
  using update_row_same [of novel_id k "novels db" n] find_key [of novel_id k "novels db" n]
  by (simp add: get_novel_def save_novel_def wf_database_def)

lemma save_chapter_same:
  "get_chapter db k = Some c \<Longrightarrow> wf_database db \<Longrightarrow> save_chapter c db = db"
  using update_row_same [of chapter_id k "chapters db" c] find_key [of chapter_id k "chapters db" c]
  by (simp add: get_chapter_def save_chapter_def wf_database_def)

lemma get_novel_save:
  "get_novel db k = Some n \<Longrightarrow> novel_id n' = novel_id n \<Longrightarrow>
   get_novel (save_novel n' db) k = Some n'"
  using find_update_row [of novel_id k "novels db" n n'] find_key [of novel_id k "novels db" n]
  by (simp add: get_novel_def save_novel_def)

lemma get_chapter_save:
  "get_chapter db k = Some c \<Longrightarrow> chapter_id c' = chapter_id c \<Longrightarrow>
   get_chapter (save_chapter c' db) k = Some c'"
  using find_update_row [of chapter_id k "chapters db" c c'] find_key [of chapter_id k "chapters db" c]
  by (simp add: get_chapter_def save_chapter_def)

lemma approve_novel_anonymous:
  "user request = AnonymousUser \<Longrightarrow> approve_novel db request k = (db, Redirect Url_login None)"
  by (simp add: approve_novel_def login_required_def)

lemma approve_chapter_anonymous:
  "user request = AnonymousUser \<Longrightarrow> approve_chapter db request k = (db, Redirect Url_login None)"
  by (simp add: approve_chapter_def login_required_def)

lemma approve_novel_superuser:
  "user request = User uid True \<Longrightarrow> get_novel db k = Some n \<Longrightarrow>
   approve_novel db request k =
     (save_novel (n\<lparr>novel_is_approved := True\<rparr>) db,
      Redirect Url_novel_list (Some (Success_message Novel_approved)))"
  by (simp add: approve_novel_def login_required_def)

lemma approve_chapter_superuser:
  "user request = User uid True \<Longrightarrow> get_chapter db k = Some c \<Longrightarrow>
   approve_chapter db request k =
     (save_chapter (c\<lparr>chapter_is_approved := True\<rparr>) db,
      Redirect (Url_chapter_list (chapter_novel c)) (Some (Success_message Chapter_approved)))"
  by (simp add: approve_chapter_def login_required_def)

lemma approve_novel_success_superuser:
  "snd (approve_novel db request k) = Redirect Url_novel_list (Some (Success_message Novel_approved))
   \<Longrightarrow> is_superuser (user request)"
  by (cases "user request")
     (auto simp: approve_novel_def login_required_def split: if_splits option.splits)

lemma approve_chapter_success_superuser:
  "snd (approve_chapter db request k) = Redirect target (Some (Success_message Chapter_approved))
   \<Longrightarrow> is_superuser (user request)"
  by (cases "user request")
     (auto simp: approve_chapter_def login_required_def split: if_splits option.splits)

lemma approved_novel_unchanged: "novel_is_approved n \<Longrightarrow> n\<lparr>novel_is_approved := True\<rparr> = n"
  by simp

lemma approved_chapter_unchanged: "chapter_is_approved c \<Longrightarrow> c\<lparr>chapter_is_approved := True\<rparr> = c"
  by simp

text \<open>
  C5, as stated, fails for a caller who is not logged in: such a caller is not a
  superuser, and \<open>login_required\<close> answers with the redirect to the login page, not
  with Forbidden.
\<close>

theorem approval_anonymous_counterexample:
  "\<not> is_superuser (user (sample_request AnonymousUser ''POST'' Map.empty)) \<and>
   approve_novel sample_db (sample_request AnonymousUser ''POST'' Map.empty) 2
     = (sample_db, Redirect Url_login None) \<and>
   snd (approve_novel sample_db (sample_request AnonymousUser ''POST'' Map.empty) 2)
     \<noteq> HttpResponseForbidden"
  by (simp add: approve_novel_def login_required_def sample_request_def)

text \<open>
  C5, amended. Approval succeeds only for a superuser. A logged-in caller who is not a
  superuser gets Forbidden, an anonymous caller the redirect to the login page, and
  neither changes the store. For a superuser and an id that resolves, the answer is the
  success redirect and the entity is approved afterwards; if it was approved already,
  the store (no two rows sharing an id) is left exactly as it was.
\<close>

theorem approval_transition:
  "(user request = AnonymousUser \<longrightarrow>
      approve_novel db request k = (db, Redirect Url_login None) \<and>
      approve_chapter db request k = (db, Redirect Url_login None)) \<and>
   (user request = User uid False \<longrightarrow>
      approve_novel db request k = (db, HttpResponseForbidden) \<and>
      approve_chapter db request k = (db, HttpResponseForbidden)) \<and>
   (snd (approve_novel db request k) =
      Redirect Url_novel_list (Some (Success_message Novel_approved)) \<longrightarrow>
      is_superuser (user request)) \<and>
   (snd (approve_chapter db request k) =
      Redirect target (Some (Success_message Chapter_approved)) \<longrightarrow>
      is_superuser (user request)) \<and>
   (user request = User uid True \<longrightarrow> get_novel db k = Some n \<longrightarrow>
      snd (approve_novel db request k) =
        Redirect Url_novel_list (Some (Success_message Novel_approved)) \<and>
      get_novel (fst (approve_novel db request k)) k = Some (n\<lparr>novel_is_approved := True\<rparr>) \<and>
      (novel_is_approved n \<longrightarrow> wf_database db \<longrightarrow> fst (approve_novel db request k) = db)) \<and>
   (user request = User uid True \<longrightarrow> get_chapter db k = Some c \<longrightarrow>
      snd (approve_chapter db request k) =
        Redirect (Url_chapter_list (chapter_novel c)) (Some (Success_message Chapter_approved)) \<and>
      get_chapter (fst (approve_chapter db request k)) k =
        Some (c\<lparr>chapter_is_approved := True\<rparr>) \<and>
      (chapter_is_approved c \<longrightarrow> wf_database db \<longrightarrow>
         fst (approve_chapter db request k) = db))"
proof (intro conjI impI)
  assume "user request = AnonymousUser"
  then show "approve_novel db request k = (db, Redirect Url_login None)"
    and "approve_chapter db request k = (db, Redirect Url_login None)"
    by (simp_all add: approve_novel_anonymous approve_chapter_anonymous)
next
  assume "user request = User uid False"
  then show "approve_novel db request k = (db, HttpResponseForbidden)"
    and "approve_chapter db request k = (db, HttpResponseForbidden)"
    by (simp_all add: approve_novel_def approve_chapter_def login_required_def)
next
  assume "snd (approve_novel db request k) =
      Redirect Url_novel_list (Some (Success_message Novel_approved))"
  then show "is_superuser (user request)" by (rule approve_novel_success_superuser)
next
  assume "snd (approve_chapter db request k) =
      Redirect target (Some (Success_message Chapter_approved))"
  then show "is_superuser (user request)" by (rule approve_chapter_success_superuser)
next
  assume u: "user request = User uid True" and g: "get_novel db k = Some n"
  note r = approve_novel_superuser [OF u g]
  show "snd (approve_novel db request k) =
        Redirect Url_novel_list (Some (Success_message Novel_approved))"
    by (simp add: r)
  show "get_novel (fst (approve_novel db request k)) k = Some (n\<lparr>novel_is_approved := True\<rparr>)"
    by (simp add: r get_novel_save [OF g])
  assume "novel_is_approved n" and "wf_database db"
  then show "fst (approve_novel db request k) = db"
    by (simp add: r approved_novel_unchanged save_novel_same [OF g])
next
  assume u: "user request = User uid True" and g: "get_chapter db k = Some c"
  note r = approve_chapter_superuser [OF u g]
  show "snd (approve_chapter db request k) =
        Redirect (Url_chapter_list (chapter_novel c)) (Some (Success_message Chapter_approved))"
    by (simp add: r)
  show "get_chapter (fst (approve_chapter db request k)) k =
        Some (c\<lparr>chapter_is_approved := True\<rparr>)"
    by (simp add: r get_chapter_save [OF g])
  assume "chapter_is_approved c" and "wf_database db"
  then show "fst (approve_chapter db request k) = db"
    by (simp add: r approved_chapter_unchanged save_chapter_same [OF g])
qed

theorem approval_transition_witness:
  "approve_novel sample_db (sample_request AnonymousUser ''POST'' Map.empty) 2
     = (sample_db, Redirect Url_login None) \<and>
   approve_chapter sample_db (sample_request (User 2 False) ''POST'' Map.empty) 2
     = (sample_db, HttpResponseForbidden) \<and>
   get_novel sample_db 2 = Some emma \<and> \<not> novel_is_approved emma \<and>
   snd (approve_novel sample_db (sample_request (User 9 True) ''POST'' Map.empty) 2)
     = Redirect Url_novel_list (Some (Success_message Novel_approved)) \<and>
   get_novel (fst (approve_novel sample_db (sample_request (User 9 True) ''POST'' Map.empty) 2)) 2
     = Some (emma\<lparr>novel_is_approved := True\<rparr>) \<and>
   is_superuser (user (sample_request (User 9 True) ''POST'' Map.empty)) \<and>
   get_chapter sample_db 1 = Some ch_one \<and> chapter_is_approved ch_one \<and>
   wf_database sample_db \<and>
   snd (approve_chapter sample_db (sample_request (User 9 True) ''POST'' Map.empty) 1)
     = Redirect (Url_chapter_list 1) (Some (Success_message Chapter_approved)) \<and>
   fst (approve_chapter sample_db (sample_request (User 9 True) ''POST'' Map.empty) 1)
     = sample_db \<and>
   get_novel sample_db 1 = Some dune \<and> novel_is_approved dune \<and>
   fst (approve_novel sample_db (sample_request (User 9 True) ''POST'' Map.empty) 1)
     = sample_db"
  using
    approval_transition
      [of "sample_request AnonymousUser ''POST'' Map.empty" sample_db 2 2 "Url_chapter_list 1"
          emma ch_two]
    approval_transition
      [of "sample_request (User 2 False) ''POST'' Map.empty" sample_db 2 2 "Url_chapter_list 1"
          emma ch_two]
    approval_transition
      [of "sample_request (User 9 True) ''POST'' Map.empty" sample_db 2 9 "Url_chapter_list 1"
          emma ch_two]
    approval_transition
      [of "sample_request (User 9 True) ''POST'' Map.empty" sample_db 1 9 "Url_chapter_list 1"
          dune ch_one]
  by (simp add: get_novel_def get_chapter_def wf_database_def sample_defs)


section \<open>The chapter list\<close>

text \<open>
  C4, as stated, fails for a viewer who is not logged in: \<open>chapter_list\<close> is wrapped in
  \<open>login_required\<close>, and the anonymous viewer gets the redirect to the login page
  instead of the list.
\<close>

theorem chapter_list_anonymous_counterexample:
  "get_novel sample_db 1 = Some dune \<and>
   chapter_list sample_db (sample_request AnonymousUser ''GET'' Map.empty) 1
     = (sample_db, Redirect Url_login None)"
  by (simp add: chapter_list_def login_required_def get_novel_def sample_defs)

text \<open>
  C4, amended. The chapter list of a novel is shown to logged-in viewers only; an
  anonymous viewer is redirected to the login page. For a logged-in viewer who is
  neither the novel's uploader nor a superuser it holds exactly the approved chapters of
  the novel, and for the uploader or a superuser all chapters of the novel, in table
  order.
\<close>

theorem chapter_list_contents:
  "(user request = AnonymousUser \<longrightarrow>
      chapter_list db request k = (db, Redirect Url_login None)) \<and>
   (user request = User uid su \<longrightarrow> get_novel db k = Some n \<longrightarrow>
      chapter_list db request k =
        (db, Render (Chapter_list_page n
           (filter (\<lambda>c. chapter_novel c = k \<and>
                        (chapter_is_approved c \<or> novel_uploader n = uid \<or> su))
              (chapters db)))))"
proof (intro conjI impI)
  assume "user request = AnonymousUser"
  then show "chapter_list db request k = (db, Redirect Url_login None)"
    by (simp add: chapter_list_def login_required_def)
next
  assume u: "user request = User uid su" and g: "get_novel db k = Some n"
  from g have k: "novel_id n = k"
    using find_key [of novel_id k "novels db" n] by (simp add: get_novel_def)
  have "filter chapter_is_approved (filter (\<lambda>c. chapter_novel c = k) (chapters db))
        = filter (\<lambda>c. chapter_novel c = k \<and> chapter_is_approved c) (chapters db)"
    by (simp add: conj_commute)
  with u g k show "chapter_list db request k =
        (db, Render (Chapter_list_page n
           (filter (\<lambda>c. chapter_novel c = k \<and>
                        (chapter_is_approved c \<or> novel_uploader n = uid \<or> su))
              (chapters db))))"
    by (auto simp: chapter_list_def login_required_def Let_def)
qed

theorem chapter_list_contents_witness:
  "chapter_list sample_db (sample_request AnonymousUser ''GET'' Map.empty) 1
     = (sample_db, Redirect Url_login None) \<and>
   chapter_list sample_db (sample_request (User 2 False) ''GET'' Map.empty) 1
     = (sample_db, Render (Chapter_list_page dune [ch_one, ch_three])) \<and>
   chapter_list sample_db (sample_request (User 1 False) ''GET'' Map.empty) 1
     = (sample_db, Render (Chapter_list_page dune [ch_one, ch_two, ch_three])) \<and>
   chapter_list sample_db (sample_request (User 9 True) ''GET'' Map.empty) 1
     = (sample_db, Render (Chapter_list_page dune [ch_one, ch_two, ch_three]))"
  using
    chapter_list_contents [of "sample_request AnonymousUser ''GET'' Map.empty" sample_db 1 0 False dune]
    chapter_list_contents [of "sample_request (User 2 False) ''GET'' Map.empty" sample_db 1 2 False dune]
    chapter_list_contents [of "sample_request (User 1 False) ''GET'' Map.empty" sample_db 1 1 False dune]
    chapter_list_contents [of "sample_request (User 9 True) ''GET'' Map.empty" sample_db 1 9 True dune]
  by (simp add: get_novel_def sample_defs)


section \<open>The chapter page\<close>

lemma chapter_detail_shown_iff:
  "(\<exists>page. chapter_detail db request k = Render page) \<longleftrightarrow>
   (\<exists>c. get_chapter db k = Some c \<and>
        (chapter_is_approved c \<or>
         is_authenticated (user request) \<and>
           (is_superuser (user request) \<or> is_user (chapter_uploader c) (user request))))"
  by (auto simp: chapter_detail_def Let_def split: option.splits)

lemma chapter_detail_hidden:
  "get_chapter db k = Some c \<Longrightarrow> \<not> chapter_is_approved c \<Longrightarrow>
   \<not> (is_authenticated (user request) \<and>
        (is_superuser (user request) \<or> is_user (chapter_uploader c) (user request))) \<Longrightarrow>
   chapter_detail db request k = Server_error NameError"
  by (auto simp: chapter_detail_def Let_def)

text \<open>
  C9. The page is shown exactly when the chapter is approved or the viewer is logged in
  and is its uploader or a superuser (\<open>chapter_detail_shown_iff\<close>). For a chapter
  that exists and is not visible, the claim asks for a not-found answer, and the view
  means to give one; but the name it raises is not imported, so the answer is a server
  error (\<open>NameError\<close>), here for the pending chapter 2 and a viewer who is anonymous or
  a plain user. Only an id that does not resolve gives not-found.
\<close>

theorem chapter_detail_hidden_is_server_error:
  "get_chapter sample_db 2 = Some ch_two \<and> \<not> chapter_is_approved ch_two \<and>
   chapter_detail sample_db (sample_request AnonymousUser ''GET'' Map.empty) 2
     = Server_error NameError \<and>
   chapter_detail sample_db (sample_request (User 2 False) ''GET'' Map.empty) 2
     = Server_error NameError \<and>
   chapter_detail sample_db (sample_request AnonymousUser ''GET'' Map.empty) 77 = Not_found"
  by (simp add: chapter_detail_def get_chapter_def sample_defs)

lemma chapter_detail_neighbours:
  assumes "chapter_detail db request k = Render (Chapter_detail_page c n ms nxt prv ps)"
  shows "prv = first (sort_key (\<lambda>x. - sort_num x)
                 (filter (\<lambda>x. sort_num x < sort_num c \<and> chapter_novel x = chapter_novel c)
                    (chapters db))) \<and>
         nxt = first (sort_key sort_num
                 (filter (\<lambda>x. sort_num x > sort_num c \<and> chapter_novel x = chapter_novel c)
                    (chapters db)))"
  using assms by (auto simp: chapter_detail_def Let_def split: option.splits if_splits)

text \<open>
  C3. The claim takes the neighbours among the chapters visible to the viewer. The view
  adds the approval filter only when \<open>can_view\<close> is false, and by then it is always
  true: the neighbours are taken among all chapters of the novel, whoever looks
  (\<open>chapter_detail_neighbours\<close>). For the anonymous viewer of the approved chapter 1,
  the next chapter is the pending chapter 2, where the claim gives chapter 3; and for
  chapter 3 the previous one is chapter 2, where the claim gives chapter 1.
\<close>

theorem chapter_detail_next_is_pending:
  "chapter_is_approved ch_one \<and> \<not> chapter_is_approved ch_two \<and>
   chapter_detail sample_db (sample_request AnonymousUser ''GET'' Map.empty) 1
     = Render (Chapter_detail_page ch_one 1 [] (Some ch_two) None [''a'']) \<and>
   chapter_detail sample_db (sample_request AnonymousUser ''GET'' Map.empty) 3
     = Render (Chapter_detail_page ch_three 1 [] None (Some ch_two) [''c''])"
  by (simp add: chapter_detail_def get_chapter_def first_def strip_def isspace_def sample_defs)


section \<open>Editing\<close>

lemma edit_chapter_success:
  assumes "edit_chapter db request k =
             (db', Redirect target (Some (Success_message Chapter_edited)))"
  shows "\<exists>c v. get_chapter db k = Some c \<and> method request = ''POST'' \<and>
           py_int (text_of (POST request ''sort_num'')) = Some v \<and>
           db' = save_chapter
                   (c\<lparr>chapter_title := text_of (POST request ''title''), sort_num := v,
                      chapter_content := text_of (POST request ''content''),
                      chapter_is_approved := False\<rparr>) db"
  using assms
  by (auto simp: edit_chapter_def login_required_def Let_def
           split: if_splits option.splits)

lemma edit_novel_success:
  assumes "edit_novel db request k =
             (db', Redirect target (Some (Success_message Novel_edited)))"
  shows "\<exists>n v cat. get_novel db k = Some n \<and> method request = ''POST'' \<and>
           py_int (text_of (POST request ''category'')) = Some v \<and>
           get_category db v = Some cat \<and>
           db' = save_novel
                   (n\<lparr>novel_title := text_of (POST request ''title''),
                      novel_author := text_of (POST request ''author''),
                      novel_category := category_id cat,
                      novel_intro := get_or (POST request) ''intro'' []\<rparr>) db"
  using assms
  by (auto simp: edit_novel_def login_required_def Let_def
           split: if_splits option.splits)

text \<open>
  C2. After a successful \<open>edit_chapter\<close> (the answer is the success redirect) the stored
  chapter is not approved, whatever it was before, and carries the submitted title,
  sort number and content. After a successful \<open>edit_novel\<close> the stored novel has the
  approval flag (and uploader) it had before, and the submitted title, author, category
  (the one the submitted id resolves to) and intro.
\<close>

theorem edit_resets_chapter_not_novel:
  "(edit_chapter db request k =
      (db', Redirect target (Some (Success_message Chapter_edited))) \<longrightarrow>
    (\<exists>c c'. get_chapter db k = Some c \<and> get_chapter db' k = Some c' \<and>
       \<not> chapter_is_approved c' \<and>
       chapter_title c' = text_of (POST request ''title'') \<and>
       py_int (text_of (POST request ''sort_num'')) = Some (sort_num c') \<and>
       chapter_content c' = text_of (POST request ''content''))) \<and>
   (edit_novel db request k =
      (db', Redirect target (Some (Success_message Novel_edited))) \<longrightarrow>
    (\<exists>n n' cat. get_novel db k = Some n \<and> get_novel db' k = Some n' \<and>
       novel_is_approved n' = novel_is_approved n \<and>
       novel_uploader n' = novel_uploader n \<and>
       novel_title n' = text_of (POST request ''title'') \<and>
       novel_author n' = text_of (POST request ''author'') \<and>
       get_category db (int (novel_category n')) = Some cat \<and>
       py_int (text_of (POST request ''category'')) = Some (int (category_id cat)) \<and>
       novel_category n' = category_id cat \<and>
       novel_intro n' = get_or (POST request) ''intro'' []))"
proof (intro conjI impI)
  assume "edit_chapter db request k =
      (db', Redirect target (Some (Success_message Chapter_edited)))"
  then obtain c v where c: "get_chapter db k = Some c"
    and v: "py_int (text_of (POST request ''sort_num'')) = Some v"
    and db': "db' = save_chapter
                   (c\<lparr>chapter_title := text_of (POST request ''title''), sort_num := v,
                      chapter_content := text_of (POST request ''content''),
                      chapter_is_approved := False\<rparr>) db"
    using edit_chapter_success by blast
  from c db' have "get_chapter db' k =
      Some (c\<lparr>chapter_title := text_of (POST request ''title''), sort_num := v,
              chapter_content := text_of (POST request ''content''),
              chapter_is_approved := False\<rparr>)"
    by (simp add: get_chapter_save)
  with c v show "\<exists>c c'. get_chapter db k = Some c \<and> get_chapter db' k = Some c' \<and>
       \<not> chapter_is_approved c' \<and>
       chapter_title c' = text_of (POST request ''title'') \<and>
       py_int (text_of (POST request ''sort_num'')) = Some (sort_num c') \<and>
       chapter_content c' = text_of (POST request ''content'')"
    by simp
next
  assume "edit_novel db request k =
      (db', Redirect target (Some (Success_message Novel_edited)))"
  then obtain n v cat where n: "get_novel db k = Some n"
    and v: "py_int (text_of (POST request ''category'')) = Some v"
    and cat: "get_category db v = Some cat"
    and db': "db' = save_novel
                   (n\<lparr>novel_title := text_of (POST request ''title''),
                      novel_author := text_of (POST request ''author''),
                      novel_category := category_id cat,
                      novel_intro := get_or (POST request) ''intro'' []\<rparr>) db"
    using edit_novel_success by blast
  from cat have cv: "int (category_id cat) = v"
    using find_key [of "\<lambda>c. int (category_id c)" v "categories db" cat]
    by (simp add: get_category_def)
  from n db' have "get_novel db' k =
      Some (n\<lparr>novel_title := text_of (POST request ''title''),
              novel_author := text_of (POST request ''author''),
              novel_category := category_id cat,
              novel_intro := get_or (POST request) ''intro'' []\<rparr>)"
    by (simp add: get_novel_save)
  with n v cat cv show "\<exists>n n' cat. get_novel db k = Some n \<and> get_novel db' k = Some n' \<and>
       novel_is_approved n' = novel_is_approved n \<and>
       novel_uploader n' = novel_uploader n \<and>
       novel_title n' = text_of (POST request ''title'') \<and>
       novel_author n' = text_of (POST request ''author'') \<and>
       get_category db (int (novel_category n')) = Some cat \<and>
       py_int (text_of (POST request ''category'')) = Some (int (category_id cat)) \<and>
       novel_category n' = category_id cat \<and>
       novel_intro n' = get_or (POST request) ''intro'' []"
    by simp
qed

lemma py_int_examples:
  "py_int ''2'' = Some 2" "py_int ''7'' = Some 7" "py_int '' 12 '' = Some 12"
  "py_int ''abc'' = None" "py_int ''1_0'' = Some 10" "py_int ''-5'' = Some (-5)"
  "py_int [CHR 0xB2] = None" "py_int ''1'' = Some 1" "py_int ''3'' = Some 3"
  by (simp_all add: py_int_def literal_def max_str_digits_def int_space_def isdecimal_def
        digit_val_def)


lemma edit_chapter_example:
  "edit_chapter sample_db (sample_request (User 1 False) ''POST'' (chapter_form ''7'')) 1
   = (sample_db\<lparr>chapters :=
        [ch_one\<lparr>chapter_title := ''New'', sort_num := 7, chapter_content := ''text'',
                chapter_is_approved := False\<rparr>, ch_two, ch_three]\<rparr>,
      Redirect (Url_chapter_detail 1) (Some (Success_message Chapter_edited)))"
  by (simp add: edit_chapter_def login_required_def get_chapter_def save_chapter_def
        falsy_def text_of_def py_int_examples sample_defs)

lemma edit_novel_example:
  "edit_novel sample_db (sample_request (User 1 False) ''POST'' novel_form) 1
   = (sample_db\<lparr>novels :=
        [dune\<lparr>novel_title := ''Dune II'', novel_author := ''F. Herbert'',
              novel_category := 2, novel_intro := ''More sand''\<rparr>, emma]\<rparr>,
      Redirect (Url_chapter_list 1) (Some (Success_message Novel_edited)))"
  by (simp add: edit_novel_def login_required_def get_novel_def get_category_def
        save_novel_def get_or_def falsy_def text_of_def py_int_examples sample_defs)

theorem edit_resets_chapter_not_novel_witness:
  "chapter_is_approved ch_one \<and> get_chapter sample_db 1 = Some ch_one \<and>
   edit_chapter sample_db (sample_request (User 1 False) ''POST'' (chapter_form ''7'')) 1
   = (sample_db\<lparr>chapters :=
        [ch_one\<lparr>chapter_title := ''New'', sort_num := 7, chapter_content := ''text'',
                chapter_is_approved := False\<rparr>, ch_two, ch_three]\<rparr>,
      Redirect (Url_chapter_detail 1) (Some (Success_message Chapter_edited))) \<and>
   (\<exists>c'. get_chapter
           (sample_db\<lparr>chapters :=
              [ch_one\<lparr>chapter_title := ''New'', sort_num := 7, chapter_content := ''text'',
                      chapter_is_approved := False\<rparr>, ch_two, ch_three]\<rparr>) 1 = Some c' \<and>
         \<not> chapter_is_approved c' \<and> chapter_title c' = ''New'' \<and> sort_num c' = 7) \<and>
   novel_is_approved dune \<and> get_novel sample_db 1 = Some dune \<and>
   edit_novel sample_db (sample_request (User 1 False) ''POST'' novel_form) 1
   = (sample_db\<lparr>novels :=
        [dune\<lparr>novel_title := ''Dune II'', novel_author := ''F. Herbert'',
              novel_category := 2, novel_intro := ''More sand''\<rparr>, emma]\<rparr>,
      Redirect (Url_chapter_list 1) (Some (Success_message Novel_edited))) \<and>
   (\<exists>n'. get_novel
           (sample_db\<lparr>novels :=
              [dune\<lparr>novel_title := ''Dune II'', novel_author := ''F. Herbert'',
                    novel_category := 2, novel_intro := ''More sand''\<rparr>, emma]\<rparr>) 1 = Some n' \<and>
         novel_is_approved n' \<and> novel_title n' = ''Dune II'' \<and>
         novel_author n' = ''F. Herbert'' \<and> novel_category n' = 2 \<and>
         novel_intro n' = ''More sand'')"
  using
    edit_resets_chapter_not_novel
      [of sample_db "sample_request (User 1 False) ''POST'' (chapter_form ''7'')" 1
          "sample_db\<lparr>chapters :=
              [ch_one\<lparr>chapter_title := ''New'', sort_num := 7, chapter_content := ''text'',
                      chapter_is_approved := False\<rparr>, ch_two, ch_three]\<rparr>"
          "Url_chapter_detail 1"]
    edit_resets_chapter_not_novel
      [of sample_db "sample_request (User 1 False) ''POST'' novel_form" 1
          "sample_db\<lparr>novels :=
              [dune\<lparr>novel_title := ''Dune II'', novel_author := ''F. Herbert'',
                    novel_category := 2, novel_intro := ''More sand''\<rparr>, emma]\<rparr>"
          "Url_chapter_list 1"]
    edit_chapter_example edit_novel_example
  by (simp add: get_chapter_def get_novel_def get_or_def text_of_def py_int_examples sample_defs)


section \<open>Chapter ordering\<close>

lemma next_sort_num_max:
  "next_sort_num xs = (if xs = [] then 1 else Max (set xs) + 1)"
proof (cases xs)
  case Nil
  then show ?thesis by (simp add: next_sort_num_def)
next
  case (Cons x ys)
  then show ?thesis
    using Max.set_eq_fold [of x ys] by (simp add: next_sort_num_def)
qed

lemma add_chapter_page_next:
  assumes "add_chapter db request k = (db', Render (Add_chapter_page n e existing nxt))"
  shows "existing = map sort_num (filter (\<lambda>c. chapter_novel c = k) (chapters db)) \<and>
         nxt = next_sort_num existing"
proof -
  have "get_novel db k = Some m \<Longrightarrow> novel_id m = k" for m
    using find_key [of novel_id k "novels db" m] by (simp add: get_novel_def)
  with assms show ?thesis
    by (auto simp: add_chapter_def login_required_def Let_def
             split: if_splits option.splits viewer.splits)
qed


lemma next_sort_num_of_novel:
  assumes "existing = map sort_num (filter (\<lambda>c. chapter_novel c = k) (chapters db))"
  shows "next_sort_num existing =
          (if {c \<in> set (chapters db). chapter_novel c = k} = {} then 1
           else Max (sort_num ` {c \<in> set (chapters db). chapter_novel c = k}) + 1)"
proof -
  have s: "set existing = sort_num ` {c \<in> set (chapters db). chapter_novel c = k}"
    by (auto simp: assms)
  have e: "(existing = []) = ({c \<in> set (chapters db). chapter_novel c = k} = {})"
    by (auto simp: assms filter_empty_conv)
  show ?thesis by (simp only: next_sort_num_max e s)
qed

text \<open>
  C7. When the uploader opens the form for a new chapter, the suggested sort number is
  1 if the novel has no chapter, and otherwise the greatest sort number among the
  novel's chapters plus 1; and every form \<open>add_chapter\<close> renders, also one re-rendered
  with an error, carries that number.
\<close>

theorem next_sort_num_is_max_plus_one:
  "(user request = User uid su \<longrightarrow> get_novel db k = Some n \<longrightarrow> novel_uploader n = uid \<longrightarrow>
    method request \<noteq> ''POST'' \<longrightarrow>
      (\<exists>existing nxt.
         add_chapter db request k = (db, Render (Add_chapter_page n None existing nxt)))) \<and>
   (add_chapter db request k = (db', Render (Add_chapter_page n' e existing' nxt')) \<longrightarrow>
      nxt' = (if {c \<in> set (chapters db). chapter_novel c = k} = {} then 1
              else Max (sort_num ` {c \<in> set (chapters db). chapter_novel c = k}) + 1))"
proof (intro conjI impI)
  assume a: "user request = User uid su" "get_novel db k = Some n"
    "novel_uploader n = uid" "method request \<noteq> ''POST''"
  then show "\<exists>existing nxt.
         add_chapter db request k = (db, Render (Add_chapter_page n None existing nxt))"
    by (simp add: add_chapter_def login_required_def Let_def)
next
  assume "add_chapter db request k = (db', Render (Add_chapter_page n' e existing' nxt'))"
  then show "nxt' = (if {c \<in> set (chapters db). chapter_novel c = k} = {} then 1
              else Max (sort_num ` {c \<in> set (chapters db). chapter_novel c = k}) + 1)"
    using add_chapter_page_next [of db request k db' n' e existing' nxt']
      next_sort_num_of_novel [of existing' k db] by simp
qed


lemma add_chapter_examples:
  "add_chapter sample_db (sample_request (User 1 False) ''GET'' Map.empty) 1
     = (sample_db, Render (Add_chapter_page dune None [1, 2, 3] 4))"
  "add_chapter sample_db (sample_request (User 2 False) ''GET'' Map.empty) 2
     = (sample_db, Render (Add_chapter_page emma None [] 1))"
  by (simp_all add: add_chapter_def login_required_def get_novel_def next_sort_num_def
        sample_defs)



theorem next_sort_num_is_max_plus_one_witness:
  "add_chapter sample_db (sample_request (User 1 False) ''GET'' Map.empty) 1
     = (sample_db, Render (Add_chapter_page dune None [1, 2, 3] 4)) \<and>
   (4::int) = (if {c \<in> set (chapters sample_db). chapter_novel c = 1} = {} then 1
               else Max (sort_num ` {c \<in> set (chapters sample_db). chapter_novel c = 1}) + 1) \<and>
   add_chapter sample_db (sample_request (User 2 False) ''GET'' Map.empty) 2
     = (sample_db, Render (Add_chapter_page emma None [] 1)) \<and>
   (1::int) = (if {c \<in> set (chapters sample_db). chapter_novel c = 2} = {} then 1
               else Max (sort_num ` {c \<in> set (chapters sample_db). chapter_novel c = 2}) + 1)"
proof -
  note a = add_chapter_examples(1) and b = add_chapter_examples(2)
  note p = next_sort_num_is_max_plus_one [THEN conjunct2, THEN mp, OF a]
  note q = next_sort_num_is_max_plus_one [THEN conjunct2, THEN mp, OF b]
  from a p b q show ?thesis by (intro conjI)
qed


section \<open>Validation of the sort number\<close>

lemma add_chapter_validation:
  assumes u: "user request = User uid su" and p: "method request = ''POST''"
    and t: "\<not> falsy (POST request ''title'')" and c: "\<not> falsy (POST request ''content'')"
    and s: "POST request ''sort_num'' = Some s" "s \<noteq> []"
    and n: "get_novel db k = Some n" "novel_uploader n = uid"
  shows "py_int s = None \<Longrightarrow>
           fst (add_chapter db request k) = db \<and>
           shown_error (snd (add_chapter db request k)) = Some Invalid_format"
    and "py_int s = Some v \<Longrightarrow>
           \<exists>x\<in>set (chapters db). chapter_novel x = k \<and> sort_num x = v \<Longrightarrow>
           fst (add_chapter db request k) = db \<and>
           shown_error (snd (add_chapter db request k)) = Some (Duplicate_ordering v)"
    and "py_int s = Some v \<Longrightarrow>
           \<not> (\<exists>x\<in>set (chapters db). chapter_novel x = k \<and> sort_num x = v) \<Longrightarrow>
           shown_error (snd (add_chapter db request k)) = None \<and>
           fst (add_chapter db request k) =
             db\<lparr>chapters := chapters db @
                  [\<lparr>chapter_id = fresh_id (map chapter_id (chapters db)), chapter_novel = k,
                    chapter_title = text_of (POST request ''title''), sort_num = v,
                    chapter_content = text_of (POST request ''content''),
                    chapter_uploader = uid, chapter_is_approved = False\<rparr>]\<rparr>"
proof -
  from n(1) have k: "novel_id n = k"
    using find_key [of novel_id k "novels db" n] by (simp add: get_novel_def)
  have f: "(filter (\<lambda>x. chapter_novel x = k \<and> sort_num x = v) (chapters db) \<noteq> []) =
           (\<exists>x\<in>set (chapters db). chapter_novel x = k \<and> sort_num x = v)" for v
    by (auto simp: filter_empty_conv)
  note defs = add_chapter_def login_required_def Let_def falsy_def text_of_def
  show "py_int s = None \<Longrightarrow>
           fst (add_chapter db request k) = db \<and>
           shown_error (snd (add_chapter db request k)) = Some Invalid_format"
    using u p t c s n k by (simp add: defs)
  show "py_int s = Some v \<Longrightarrow>
           \<exists>x\<in>set (chapters db). chapter_novel x = k \<and> sort_num x = v \<Longrightarrow>
           fst (add_chapter db request k) = db \<and>
           shown_error (snd (add_chapter db request k)) = Some (Duplicate_ordering v)"
    using u p t c s n k f [of v] by (simp add: defs)
  show "py_int s = Some v \<Longrightarrow>
           \<not> (\<exists>x\<in>set (chapters db). chapter_novel x = k \<and> sort_num x = v) \<Longrightarrow>
           shown_error (snd (add_chapter db request k)) = None \<and>
           fst (add_chapter db request k) =
             db\<lparr>chapters := chapters db @
                  [\<lparr>chapter_id = fresh_id (map chapter_id (chapters db)), chapter_novel = k,
                    chapter_title = text_of (POST request ''title''), sort_num = v,
                    chapter_content = text_of (POST request ''content''),
                    chapter_uploader = uid, chapter_is_approved = False\<rparr>]\<rparr>"
    using u p t c s n k f [of v] by (simp add: defs)
qed



lemma empty_field_first:
  assumes "user request = User uid su" and "method request = ''POST''"
    and "falsy (POST request ''title'') \<or> falsy (POST request ''sort_num'') \<or>
         falsy (POST request ''content'')"
  shows "get_novel db k = Some n \<Longrightarrow> novel_uploader n = uid \<Longrightarrow>
           fst (add_chapter db request k) = db \<and>
           shown_error (snd (add_chapter db request k)) = Some Empty_field"
    and "get_chapter db k = Some ch \<Longrightarrow> chapter_uploader ch = uid \<or> su \<Longrightarrow>
           fst (edit_chapter db request k) = db \<and>
           shown_error (snd (edit_chapter db request k)) = Some Empty_field"
proof -
  show "fst (add_chapter db request k) = db \<and>
        shown_error (snd (add_chapter db request k)) = Some Empty_field"
    if "get_novel db k = Some n" "novel_uploader n = uid"
    using assms that by (simp add: add_chapter_def login_required_def Let_def)
  show "fst (edit_chapter db request k) = db \<and>
        shown_error (snd (edit_chapter db request k)) = Some Empty_field"
    if "get_chapter db k = Some ch" "chapter_uploader ch = uid \<or> su"
    using assms that by (auto simp: edit_chapter_def login_required_def Let_def)
qed







text \<open>
  A candidate of more than \<open>max_str_digits\<close> digits does not parse, and is answered
  with the invalid-format error like any other malformed candidate.
\<close>

lemma py_int_too_long:
  assumes "max_str_digits < n"
  shows "py_int (replicate n (CHR ''1'')) = None"
proof -
  from assms obtain m where n: "n = Suc m" by (cases n) simp_all
  have d: "isdecimal (CHR ''1'')" and w: "\<not> int_space (CHR ''1'')"
    by (simp_all add: isdecimal_def int_space_def)
  have "rev (dropWhile int_space (rev (dropWhile int_space (replicate n (CHR ''1'')))))
        = CHR ''1'' # replicate m (CHR ''1'')"
    using w by (simp add: n del: replicate.simps) (simp add: replicate_append_same)
  moreover have "literal (CHR ''1'' # replicate m (CHR ''1'')) = None"
    using assms d by (simp add: literal_def n)
  ultimately show ?thesis by (simp add: py_int_def)
qed

lemma sort_num_too_long_is_invalid:
  "fst (add_chapter sample_db
     (sample_request (User 1 False) ''POST'' (chapter_form (replicate 4301 (CHR ''1'')))) 1)
   = sample_db \<and>
   shown_error (snd (add_chapter sample_db
     (sample_request (User 1 False) ''POST'' (chapter_form (replicate 4301 (CHR ''1'')))) 1))
   = Some Invalid_format"
proof -
  have p: "py_int (replicate 4301 (CHR ''1'')) = None"
    by (rule py_int_too_long) (simp add: max_str_digits_def)
  have q: "user (sample_request (User 1 False) ''POST'' (chapter_form t)) = User 1 False"
    "method (sample_request (User 1 False) ''POST'' (chapter_form t)) = ''POST''"
    "\<not> falsy (POST (sample_request (User 1 False) ''POST'' (chapter_form t)) ''title'')"
    "\<not> falsy (POST (sample_request (User 1 False) ''POST'' (chapter_form t)) ''content'')"
    "POST (sample_request (User 1 False) ''POST'' (chapter_form t)) ''sort_num'' = Some t"
    for t
    by (simp_all add: falsy_def sample_request_def chapter_form_def)
  have n: "replicate 4301 (CHR ''1'') \<noteq> []" by simp
  have g: "get_novel sample_db 1 = Some dune" "novel_uploader dune = 1"
    by (simp_all add: get_novel_def sample_db_def dune_def emma_def)
  show ?thesis
    by (rule add_chapter_validation(1) [OF q n g p])
qed


section \<open>Comments\<close>

lemma strip_trailing_space:
  assumes "isspace c"
  shows "strip (s @ [c]) = strip s"
proof (cases "\<forall>x\<in>set s. isspace x")
  case True
  then have a: "dropWhile isspace s = []" by simp
  from True assms have b: "dropWhile isspace (s @ [c]) = []" by simp
  show ?thesis by (simp only: strip_def a b)
next
  case False
  then obtain x where "x \<in> set s" "\<not> isspace x" by blast
  then have "dropWhile isspace (s @ [c]) = dropWhile isspace s @ [c]"
    by (rule dropWhile_append1)
  with assms show ?thesis by (simp add: strip_def)
qed

lemma strip_plain:
  assumes "s \<noteq> []" and "\<not> isspace (hd s)" and "\<not> isspace (last s)"
  shows "strip s = s"
proof -
  from assms(1,2) have a: "dropWhile isspace s = s"
    by (cases s) simp_all
  from assms(1) obtain ys y where s: "s = ys @ [y]"
    by (cases s rule: rev_cases) simp_all
  with assms(3) have "dropWhile isspace (rev s) = rev s" by simp
  with a show ?thesis by (simp add: strip_def)
qed

lemma strip_letters: "0 < n \<Longrightarrow> strip (replicate n (CHR ''a'')) = replicate n (CHR ''a'')"
  by (rule strip_plain) (simp_all add: isspace_def)


lemma add_comment_result:
  assumes "user request = User uid su" and "method request = ''POST''"
    and "get_chapter db k = Some ch"
  shows "add_comment dflt db request k =
     (let content = strip (get_or (POST request) ''content'' [])
      in if content = []
         then (db, Redirect (Url_chapter_detail k) (Some (Error_message Comment_empty)))
         else if length content > 500
         then (db, Redirect (Url_chapter_detail k) (Some (Error_message Comment_too_long)))
         else (db\<lparr>comments := comments db @
                   [\<lparr>comment_id = fresh_id (map comment_id (comments db)),
                     comment_chapter = k, comment_user = uid,
                     comment_content = content, comment_is_approved = dflt\<rparr>]\<rparr>,
               Redirect (Url_chapter_detail k) (Some (Success_message Comment_posted))))"
proof -
  from assms(3) have "chapter_id ch = k"
    using find_key [of chapter_id k "chapters db" ch] by (simp add: get_chapter_def)
  with assms show ?thesis
    by (simp add: add_comment_def login_required_def Let_def)
qed

text \<open>
  C6, as stated, fails for a text longer than 500 characters whose surplus is
  surrounding whitespace: the length is measured after \<open>strip()\<close>. The text of 500
  letters followed by a space has 501 characters, and the comment is accepted.
\<close>

theorem add_comment_long_text_counterexample:
  "length (replicate 500 (CHR ''a'') @ '' '') = 501 \<and>
   add_comment True sample_db
     (sample_request (User 2 False) ''POST'' (comment_form (replicate 500 (CHR ''a'') @ '' ''))) 1
   = (sample_db\<lparr>comments :=
        [\<lparr>comment_id = 1, comment_chapter = 1, comment_user = 2,
          comment_content = replicate 500 (CHR ''a''), comment_is_approved = True\<rparr>]\<rparr>,
      Redirect (Url_chapter_detail 1) (Some (Success_message Comment_posted)))"
proof -
  have s: "strip (replicate 500 (CHR ''a'') @ '' '') = replicate 500 (CHR ''a'')"
    using strip_trailing_space [of "CHR '' ''" "replicate 500 (CHR ''a'')"]
      strip_letters [of 500]
    by (simp add: isspace_def)
  have g: "get_chapter sample_db 1 = Some ch_one"
    by (simp add: get_chapter_def sample_defs)
  have u: "user (sample_request (User 2 False) ''POST'' q) = User 2 False"
    and m: "method (sample_request (User 2 False) ''POST'' q) = ''POST''"
    and p: "get_or (POST (sample_request (User 2 False) ''POST'' (comment_form t))) ''content'' [] = t"
    for q t
    by (simp_all add: get_or_def sample_defs)
  have c: "comments sample_db = []" by (simp add: sample_defs)
  have n: "replicate 500 (CHR ''a'') \<noteq> []" by simp
  show ?thesis
    by (simp only: add_comment_result [OF u m g] p s Let_def n if_False length_replicate
          length_append list.size c append_Nil fresh_id_def list.map fold_simps)
       simp
qed


text \<open>
  C6, amended. A comment submitted (POST) by a logged-in user on an existing chapter,
  \<open>text\<close> being the submitted content with surrounding whitespace stripped: if
  \<open>text\<close> is empty the submission fails with the empty-content error; if \<open>text\<close> has
  more than 500 characters it fails with the too-long error; in both cases nothing is
  stored. Otherwise (also at exactly 500 characters) it succeeds, and one comment is
  added, tied to the chapter and to the submitting user and holding \<open>text\<close>.
\<close>

theorem add_comment_validation:
  assumes "user request = User uid su" and "method request = ''POST''"
    and "get_chapter db k = Some ch"
  shows
    "(strip (get_or (POST request) ''content'' []) = [] \<longrightarrow>
        add_comment dflt db request k =
          (db, Redirect (Url_chapter_detail k) (Some (Error_message Comment_empty)))) \<and>
     (length (strip (get_or (POST request) ''content'' [])) > 500 \<longrightarrow>
        add_comment dflt db request k =
          (db, Redirect (Url_chapter_detail k) (Some (Error_message Comment_too_long)))) \<and>
     (strip (get_or (POST request) ''content'' []) \<noteq> [] \<and>
      length (strip (get_or (POST request) ''content'' [])) \<le> 500 \<longrightarrow>
        add_comment dflt db request k =
          (db\<lparr>comments := comments db @
                [\<lparr>comment_id = fresh_id (map comment_id (comments db)),
                  comment_chapter = k, comment_user = uid,
                  comment_content = strip (get_or (POST request) ''content'' []),
                  comment_is_approved = dflt\<rparr>]\<rparr>,
           Redirect (Url_chapter_detail k) (Some (Success_message Comment_posted))))"
  by (auto simp: add_comment_result [OF assms] Let_def)

theorem add_comment_validation_witness:
  "add_comment True sample_db
     (sample_request (User 2 False) ''POST'' (comment_form ''   '')) 1
   = (sample_db, Redirect (Url_chapter_detail 1) (Some (Error_message Comment_empty))) \<and>
   add_comment True sample_db
     (sample_request (User 2 False) ''POST'' (comment_form (replicate 501 (CHR ''a'')))) 1
   = (sample_db, Redirect (Url_chapter_detail 1) (Some (Error_message Comment_too_long))) \<and>
   length (replicate 500 (CHR ''a'')) = 500 \<and>
   add_comment True sample_db
     (sample_request (User 2 False) ''POST'' (comment_form (replicate 500 (CHR ''a'')))) 1
   = (sample_db\<lparr>comments := comments sample_db @
        [\<lparr>comment_id = fresh_id (map comment_id (comments sample_db)),
          comment_chapter = 1, comment_user = 2,
          comment_content = replicate 500 (CHR ''a''), comment_is_approved = True\<rparr>]\<rparr>,
      Redirect (Url_chapter_detail 1) (Some (Success_message Comment_posted)))"
proof -
  have g: "get_chapter sample_db 1 = Some ch_one"
    by (simp add: get_chapter_def sample_defs)
  have u: "user (sample_request (User 2 False) ''POST'' (comment_form t)) = User 2 False"
    and m: "method (sample_request (User 2 False) ''POST'' (comment_form t)) = ''POST''"
    and p: "get_or (POST (sample_request (User 2 False) ''POST'' (comment_form t))) ''content'' [] = t"
    for t
    by (simp_all add: get_or_def sample_defs)
  have e: "strip ''   '' = []" by (simp add: strip_def isspace_def)
  have l: "strip (replicate 501 (CHR ''a'')) = replicate 501 (CHR ''a'')"
    and x: "strip (replicate 500 (CHR ''a'')) = replicate 500 (CHR ''a'')"
    by (simp_all add: strip_letters)
  note v1 = add_comment_validation [OF u [of "''   ''"] m [of "''   ''"] g, unfolded p, of True]
  note v2 = add_comment_validation
    [OF u [of "replicate 501 (CHR ''a'')"] m [of "replicate 501 (CHR ''a'')"] g, unfolded p, of True]
  note v3 = add_comment_validation
    [OF u [of "replicate 500 (CHR ''a'')"] m [of "replicate 500 (CHR ''a'')"] g, unfolded p, of True]
  have 1: "add_comment True sample_db
     (sample_request (User 2 False) ''POST'' (comment_form ''   '')) 1
   = (sample_db, Redirect (Url_chapter_detail 1) (Some (Error_message Comment_empty)))"
    using v1 e by simp
  have 2: "add_comment True sample_db
     (sample_request (User 2 False) ''POST'' (comment_form (replicate 501 (CHR ''a'')))) 1
   = (sample_db, Redirect (Url_chapter_detail 1) (Some (Error_message Comment_too_long)))"
    using v2 by (simp add: l)
  have 3: "add_comment True sample_db
     (sample_request (User 2 False) ''POST'' (comment_form (replicate 500 (CHR ''a'')))) 1
   = (sample_db\<lparr>comments := comments sample_db @
        [\<lparr>comment_id = fresh_id (map comment_id (comments sample_db)),
          comment_chapter = 1, comment_user = 2,
          comment_content = replicate 500 (CHR ''a''), comment_is_approved = True\<rparr>]\<rparr>,
      Redirect (Url_chapter_detail 1) (Some (Success_message Comment_posted)))"
    using v3 by (simp add: x)
  have 4: "length (replicate 500 (CHR ''a'')) = 500" by simp
  show ?thesis by (intro conjI 1 2 3 4)
qed


section \<open>The catalogue\<close>

lemma startswith_iff: "startswith kw s \<longleftrightarrow> (\<exists>after. s = kw @ after)"
  by (induction kw s rule: startswith.induct) auto

lemma contains_iff: "contains kw s \<longleftrightarrow> (\<exists>before after. s = before @ kw @ after)"
proof (induction s)
  case Nil
  then show ?case by simp
next
  case (Cons y ys)
  show ?case
  proof
    assume "contains kw (y # ys)"
    then consider "startswith kw (y # ys)" | "contains kw ys" by auto
    then show "\<exists>before after. y # ys = before @ kw @ after"
    proof cases
      case 1
      then obtain after where "y # ys = kw @ after" by (auto simp: startswith_iff)
      then have "y # ys = [] @ kw @ after" by simp
      then show ?thesis by blast
    next
      case 2
      with Cons obtain before after where "ys = before @ kw @ after" by blast
      then have "y # ys = (y # before) @ kw @ after" by simp
      then show ?thesis by blast
    qed
  next
    assume "\<exists>before after. y # ys = before @ kw @ after"
    then obtain before after where e: "y # ys = before @ kw @ after" by blast
    show "contains kw (y # ys)"
    proof (cases before)
      case Nil
      with e have "startswith kw (y # ys)" by (auto simp: startswith_iff)
      then show ?thesis by simp
    next
      case (Cons b bs)
      with e have "ys = bs @ kw @ after" by simp
      with Cons.IH have "contains kw ys" by blast
      then show ?thesis by simp
    qed
  qed
qed

lemma icontains_occurs_in: "icontains kw s = occurs_in kw s"
  by (simp add: icontains_def occurs_in_def contains_iff)

lemma digits_decimal:
  "list_all isdecimal s \<Longrightarrow>
   (s \<noteq> [] \<longrightarrow> (\<exists>v. digits acc s = Some v)) \<and> (\<exists>v. digits_rest acc s = Some v)"
proof (induction s arbitrary: acc)
  case Nil
  then show ?case by simp
next
  case (Cons c cs)
  then have c: "isdecimal c" and cs: "list_all isdecimal cs" by simp_all
  from c have u: "c \<noteq> CHR ''_''" by (auto simp: isdecimal_def)
  from Cons.IH [OF cs] have "\<exists>v. digits_rest (acc * 10 + digit_val c) cs = Some v" by blast
  with c u show ?case by simp
qed

lemma py_int_decimal:
  assumes "s \<noteq> []" and "list_all isdecimal s" and "length s \<le> max_str_digits"
  shows "\<exists>v. py_int s = Some v"
proof -
  have ns: "isdecimal c \<Longrightarrow> \<not> int_space c \<and> c \<noteq> CHR ''-'' \<and> c \<noteq> CHR ''+''" for c
    by (auto simp: isdecimal_def int_space_def Let_def)
  from assms obtain c cs where s: "s = c # cs" and c: "isdecimal c"
    by (cases s) simp_all
  from assms obtain ys y where r: "s = ys @ [y]" and y: "isdecimal y"
    by (cases s rule: rev_cases) simp_all
  from s c ns have "dropWhile int_space s = s" by simp
  moreover from r y ns have "dropWhile int_space (rev s) = rev s" by simp
  ultimately have t: "rev (dropWhile int_space (rev (dropWhile int_space s))) = c # cs"
    using s by simp
  from assms(2) have "filter isdecimal s = s"
    by (simp add: list_all_iff)
  with assms(3) have "literal s = digits 0 s" by (simp add: literal_def)
  with digits_decimal [OF assms(2), of 0] assms(1) s
  obtain v where "literal (c # cs) = Some v" by auto
  with t c ns show ?thesis by (simp add: py_int_def)
qed


lemma novel_list_filter:
  assumes "\<not> isdigit (get_or (GET request) ''category'' []) \<or>
           py_int (get_or (GET request) ''category'' []) = Some k"
  shows "\<exists>shown. novel_list db request =
           Render (Novel_list_page shown (categories db)
                     (get_or (GET request) ''category'' [])
                     (get_or (GET request) ''keyword'' [])) \<and>
         (\<forall>n. n \<in> set shown \<longleftrightarrow>
            n \<in> set (novels db) \<and> novel_is_approved n \<and>
            (\<not> isdigit (get_or (GET request) ''category'' []) \<or> int (novel_category n) = k) \<and>
            (get_or (GET request) ''keyword'' [] = [] \<or>
             occurs_in (get_or (GET request) ''keyword'' []) (novel_title n) \<or>
             occurs_in (get_or (GET request) ''keyword'' []) (novel_author n)))"
proof (cases "isdigit (get_or (GET request) ''category'' [])")
  case True
  with assms have p: "py_int (get_or (GET request) ''category'' []) = Some k" by simp
  from True have ne: "get_or (GET request) ''category'' [] \<noteq> []" by (simp add: isdigit_def)
  show ?thesis
    by (rule exI, rule conjI)
       (simp add: novel_list_def Let_def True p ne, auto simp: True icontains_occurs_in)
next
  case False
  show ?thesis
    by (rule exI, rule conjI)
       (simp add: novel_list_def Let_def False, auto simp: False icontains_occurs_in)
qed

text \<open>
  C1. The claim asks that a category parameter that is not an integer be treated as
  unset and never cause an error, and the guard \<open>category_id.isdigit()\<close> is there for
  that. But \<open>isdigit\<close> also accepts digits that \<open>int\<close> rejects: for the category
  \<open>U+00B2\<close> (superscript two) the guard passes, \<open>int\<close> raises \<open>ValueError\<close>, and the
  request ends as a server error instead of the list of approved novels. For every
  category the guard rejects, or that \<open>int\<close> parses (every non-empty string of at most
  \<open>max_str_digits\<close> of the digits 0-9 does), the filter is as the claim says
  (\<open>novel_list_filter\<close>, \<open>py_int_decimal\<close>).
\<close>

theorem novel_list_superscript_category:
  "isdigit [CHR 0xB2] \<and> py_int [CHR 0xB2] = None \<and>
   novel_list sample_db
     (sample_request AnonymousUser ''GET'' [''category'' \<mapsto> [CHR 0xB2]])
   = Server_error ValueError"
  by (simp add: novel_list_def get_or_def isdigit_def isdigit_char_def py_int_def literal_def
        max_str_digits_def int_space_def isdecimal_def sample_request_def)

lemma novel_list_examples:
  "novel_list sample_db (sample_request AnonymousUser ''GET'' Map.empty)
     = Render (Novel_list_page [dune] (categories sample_db) [] [])"
  "novel_list sample_db
     (sample_request AnonymousUser ''GET'' [''category'' \<mapsto> ''abc'', ''keyword'' \<mapsto> ''HERB''])
     = Render (Novel_list_page [dune] (categories sample_db) ''abc'' ''HERB'')"
  "novel_list sample_db (sample_request AnonymousUser ''GET'' [''category'' \<mapsto> ''2''])
     = Render (Novel_list_page [] (categories sample_db) ''2'' [])"
  by code_simp+

end
